theory Spec2Isabelle
  imports Main "HOL-Library.Word" "HOL-Library.Signed_Division"
begin

section \<open>The iota interceptor of iotacaddy (iota/plugin.go)\<close>

text \<open>
  The plugin is one HTTP middleware, \<open>Interceptor.ServeHTTP\<close>. It reads the body of a
  POST request, decodes it as an \<open>attachToTangle\<close> command, checks two limits, decodes
  the transactions for logging, does the proof of work under a process-wide mutex and
  writes the answer. Everything else is handed to the next handler of the chain.

  The embedding keeps the handler's control flow line by line. What the handler calls
  outside this repository (\<open>json.Unmarshal\<close>, \<open>json.Marshal\<close>,
  \<open>transaction.AsTransactionObject\<close>, \<open>pow.DoPoW\<close>, the response writer, the wall
  clock) is collected in an environment record, one field per collaborator. The
  effects of the handler are made explicit as a world that is passed through: the wall
  clock, the state of the mutex \<open>mu\<close> and the ordered trace of calls to collaborators.
\<close>

subsection \<open>Data\<close>

type_synonym Trytes = string

text \<open>The package-level error values, lines 25-30. The two errors that are wrapped with the
  configured limit (\<open>errors.Wrapf\<close>) carry that limit.\<close>

datatype err =
    ErrMissingBody
  | ErrBuildingTx
  | ErrBuildingRes
  | ErrTxBundleLimitExceeded int
  | ErrExecutingProofOfWork
  | ErrInvalidMWM int

text \<open>The package variables \<open>maxMWM\<close> and \<open>maxTxInBundle\<close>. \<open>setup\<close> assigns them whatever
  \<open>strconv.Atoi\<close> returns for the two arguments, so they are any integers. Go's \<open>int\<close> is
  only compared here, never computed with, and is modelled as \<open>int\<close>.\<close>

record limits =
  maxMWM :: int
  maxTxInBundle :: int

record AttachToTangleReq =
  Command :: string
  TrunkTxHash :: Trytes
  BranchTxHash :: Trytes
  MWM :: int
  Trytes :: "Trytes list"

record AttachToTangleRes =
  ResTrytes :: "Trytes list"
  Duration :: "64 word"

text \<open>The fields of \<open>transaction.Transaction\<close> that the handler reads. \<open>Value\<close> is an
  \<open>int64\<close>.\<close>

record Transaction =
  Address :: Trytes
  Value :: "64 word"
  Bundle :: Trytes

definition zeroTx :: Transaction where
  "zeroTx = \<lparr>Address = [], Value = 0, Bundle = []\<rparr>"

text \<open>A request body is a stream: what is still unread, and whether reading it fails.
  \<open>Body = None\<close> is Go's \<open>r.Body == nil\<close>.\<close>

record reader =
  unread :: string
  broken :: bool

record request =
  Method :: string
  Body :: "reader option"
  RemoteAddr :: string

text \<open>The lines written to the log. The formatted text is not modelled, only the values
  that go into it (the amounts as the raw \<open>int64\<close>, before the conversion to Mi).\<close>

datatype logline =
    LogNewRequest string
  | LogCanceling int int
  | LogInput Trytes "64 word"
  | LogOutput Trytes "64 word"
  | LogBundle Trytes
  | LogInputValue "64 word"
  | LogDoingPoW nat
  | LogTook "64 word" nat

text \<open>The calls the handler makes to its collaborators, in the order it makes them.\<close>

datatype event =
    EvLock
  | EvUnlock
  | EvLog logline
  | EvNext request
  | EvDoPoW Trytes Trytes "Trytes list" "64 word"
  | EvMarshal AttachToTangleRes
  | EvSetHeader string string
  | EvWrite string

record world =
  clock :: "64 word"
  held :: bool
  trace :: "event list"

text \<open>The collaborators. A failing call is \<open>None\<close>. The four durations are the
  nanoseconds that pass while the handler is blocked in \<open>mu.Lock\<close>, while it decodes and
  logs the transactions, while \<open>pow.DoPoW\<close> runs, and while the line with the elapsed time
  is logged.\<close>

record env =
  Unmarshal :: "string \<Rightarrow> AttachToTangleReq option"
  Marshal :: "AttachToTangleRes \<Rightarrow> string option"
  AsTransactionObject :: "Trytes \<Rightarrow> Transaction option"
  DoPoW :: "Trytes \<Rightarrow> Trytes \<Rightarrow> Trytes list \<Rightarrow> 64 word \<Rightarrow> Trytes list option"
  writeFails :: bool
  lockWait :: nat
  decodeTime :: nat
  powTime :: nat
  logTime :: nat

text \<open>What \<open>ServeHTTP\<close> returns: a status with an error (\<open>None\<close> is \<open>nil\<close>), or whatever
  the next handler returns for the request it was given, or a run-time panic.\<close>

datatype result =
    Return int "err option"
  | Forwarded request
  | Panic

subsection \<open>Primitive steps\<close>

definition StatusOK :: int where "StatusOK = 200"
definition StatusBadRequest :: int where "StatusBadRequest = 400"
definition StatusInternalServerError :: int where "StatusInternalServerError = 500"

definition MethodPost :: string where "MethodPost = ''POST''"
definition attachToTangleCommand :: string where "attachToTangleCommand = ''attachToTangle''"
definition contentType :: string where "contentType = ''Content-Type''"
definition contentTypeJSON :: string where "contentTypeJSON = ''application/json''"

definition emit :: "event \<Rightarrow> world \<Rightarrow> world" where
  "emit e w = w\<lparr>trace := trace w @ [e]\<rparr>"

definition logf :: "logline \<Rightarrow> world \<Rightarrow> world" where
  "logf l w = emit (EvLog l) w"

definition elapse :: "nat \<Rightarrow> world \<Rightarrow> world" where
  "elapse d w = w\<lparr>clock := clock w + word_of_nat d\<rparr>"

text \<open>\<open>time.Now().UnixNano()\<close>\<close>

definition UnixNano :: "world \<Rightarrow> 64 word" where
  "UnixNano w = clock w"

text \<open>Go's \<open>/\<close> on \<open>int64\<close>: the quotient truncated towards zero, wrapped to 64 bits.\<close>

definition quo64 :: "64 word \<Rightarrow> 64 word \<Rightarrow> 64 word" where
  "quo64 a b = word_of_int (sint a sdiv sint b)"

text \<open>\<open>mu.Lock()\<close> returns once the mutex is free, holding it; \<open>mu.Unlock()\<close> frees it.\<close>

definition Lock :: "env \<Rightarrow> world \<Rightarrow> world" where
  "Lock env w = emit EvLock ((elapse (lockWait env) w)\<lparr>held := True\<rparr>)"

definition Unlock :: "world \<Rightarrow> world" where
  "Unlock w = emit EvUnlock (w\<lparr>held := False\<rparr>)"

text \<open>\<open>ioutil.ReadAll\<close>: the bytes read (\<open>None\<close> for an error) and the stream afterwards,
  which has nothing left to read.\<close>

definition ReadAll :: "reader \<Rightarrow> string option \<times> reader" where
  "ReadAll rd = (if broken rd then (None, rd\<lparr>unread := []\<rparr>)
                 else (Some (unread rd), rd\<lparr>unread := []\<rparr>))"

text \<open>\<open>ioutil.NopCloser(bytes.NewReader(contents))\<close>\<close>

definition NewReader :: "string \<Rightarrow> reader" where
  "NewReader contents = \<lparr>unread = contents, broken = False\<rparr>"

text \<open>\<open>return interc.Next.ServeHTTP(w, r)\<close>: the next handler is called with the request as
  it is at that moment.\<close>

definition forward :: "request \<Rightarrow> world \<Rightarrow> result \<times> world" where
  "forward r w = (Forwarded r, emit (EvNext r) w)"

text \<open>\<open>xs[i]\<close>: \<open>None\<close> is the index-out-of-range panic.\<close>

definition index :: "'a list \<Rightarrow> nat \<Rightarrow> 'a option" where
  "index xs i = (if i < length xs then Some (xs ! i) else None)"

subsection \<open>The decoding loop, lines 177-193\<close>

record loopst =
  isValueBundle :: bool
  inputValue :: "64 word"
  transactions :: "Transaction list"

datatype loopres = Done | DecodeFailed | OutOfRange

text \<open>Lines 182-191, the body of the loop between decoding a transaction and storing it:
  a transaction with a value marks the bundle, an input adds to the input value, and
  both are logged.\<close>

definition tallyValue :: "Transaction \<Rightarrow> loopst \<Rightarrow> world \<Rightarrow> loopst \<times> world" where
  "tallyValue tx st w =
    (if Value tx \<noteq> 0 then
       (let st1 = st\<lparr>isValueBundle := True\<rparr> in
        if Value tx <s 0
        then (st1\<lparr>inputValue := inputValue st1 + Value tx\<rparr>,
              logf (LogInput (Address tx) (Value tx)) w)
        else (st1, logf (LogOutput (Address tx) (Value tx)) w))
     else (st, w))"

text \<open>\<open>for i := len(txTrytes) - 1; i >= 0; i--\<close>. The counter of the model is \<open>i + 1\<close>: the
  loop is over at counter 0, and at counter \<open>Suc i\<close> the body runs for index \<open>i\<close>. Both
  \<open>txTrytes[i]\<close> and \<open>transactions[i] = *tx\<close> are checked accesses.\<close>

fun decodeLoop :: "env \<Rightarrow> Trytes list \<Rightarrow> nat \<Rightarrow> loopst \<Rightarrow> world \<Rightarrow> loopres \<times> loopst \<times> world" where
  "decodeLoop env txTrytes 0 st w = (Done, st, w)"
| "decodeLoop env txTrytes (Suc i) st w =
    (case index txTrytes i of
       None \<Rightarrow> (OutOfRange, st, w)
     | Some trytes \<Rightarrow>
        (case AsTransactionObject env trytes of
           None \<Rightarrow> (DecodeFailed, st, w)
         | Some tx \<Rightarrow>
            (let (st1, w1) = tallyValue tx st w
             in if i < length (transactions st1)
                then decodeLoop env txTrytes i
                       (st1\<lparr>transactions := (transactions st1)[i := tx]\<rparr>) w1
                else (OutOfRange, st1, w1))))"

text \<open>The state in which the decoding loop starts, lines 173-175: \<open>make\<close> fills the slice
  with zero values.\<close>

definition loopInit :: "nat \<Rightarrow> loopst" where
  "loopInit n = \<lparr>isValueBundle = False, inputValue = 0, transactions = replicate n zeroTx\<rparr>"

subsection \<open>The handler\<close>

text \<open>Lines 195-222: the bundle hash is logged, the proof of work is done, the response is
  built and written. \<open>start\<close> is the clock value read at line 171.\<close>

definition compute ::
  "env \<Rightarrow> AttachToTangleReq \<Rightarrow> 64 word \<Rightarrow> nat \<Rightarrow> loopst \<Rightarrow> world \<Rightarrow> result \<times> world" where
  "compute env command start txsCount st w =
    (case index (transactions st) 0 of
       None \<Rightarrow> (Panic, w)
     | Some tx0 \<Rightarrow>
        (let w1 = logf (LogBundle (Bundle tx0)) w;
             w2 = (if isValueBundle st then logf (LogInputValue (inputValue st)) w1 else w1);
             w3 = logf (LogDoingPoW txsCount) w2;
             s = UnixNano w3;
             mwm = (word_of_int (MWM command) :: 64 word);
             w4 = elapse (powTime env)
                    (emit (EvDoPoW (TrunkTxHash command) (BranchTxHash command)
                             (Trytes command) mwm) w3)
         in case DoPoW env (TrunkTxHash command) (BranchTxHash command) (Trytes command) mwm of
              None \<Rightarrow> (Return StatusBadRequest (Some ErrExecutingProofOfWork), w4)
            | Some powedBundle \<Rightarrow>
               (let w5 = elapse (logTime env)
                           (logf (LogTook (quo64 (UnixNano w4 - s) 1000000) txsCount) w4);
                    res = \<lparr>ResTrytes = powedBundle,
                           Duration = quo64 (UnixNano w5 - start) 1000000\<rparr>;
                    w6 = emit (EvMarshal res) w5
                in case Marshal env res of
                     None \<Rightarrow> (Return StatusInternalServerError (Some ErrBuildingRes), w6)
                   | Some resBytes \<Rightarrow>
                      (let w7 = emit (EvSetHeader contentType contentTypeJSON) w6;
                           w8 = emit (EvSetHeader ''access-control-allow-origin'' ''*'') w7;
                           w9 = emit (EvWrite resBytes) w8
                       in if writeFails env
                          then (Return StatusInternalServerError (Some ErrBuildingRes), w9)
                          else (Return StatusOK None, w9)))))"

text \<open>Lines 158-193, the part of the handler that runs with the mutex held: the
  pass-through of an empty batch, the limit on the batch, the clock reading \<open>start\<close> and
  the decoding loop.\<close>

definition locked :: "env \<Rightarrow> limits \<Rightarrow> AttachToTangleReq \<Rightarrow> request \<Rightarrow> world \<Rightarrow> result \<times> world" where
  "locked env lim command r w =
    (let txTrytes = Trytes command in
     if length txTrytes = 0 then forward r w
     else
       (let w1 = logf (LogNewRequest (RemoteAddr r)) w in
        if int (length txTrytes) > maxTxInBundle lim
        then (Return StatusBadRequest (Some (ErrTxBundleLimitExceeded (maxTxInBundle lim))),
              logf (LogCanceling (int (length txTrytes)) (maxTxInBundle lim)) w1)
        else
          (let start = UnixNano w1;
               st0 = loopInit (length txTrytes);
               txsCount = length (transactions st0)
           in case decodeLoop env txTrytes (length txTrytes) st0 w1 of
                (DecodeFailed, st, w2) \<Rightarrow> (Return StatusBadRequest (Some ErrBuildingTx), w2)
              | (OutOfRange, st, w2) \<Rightarrow> (Panic, w2)
              | (Done, st, w2) \<Rightarrow>
                  compute env command start txsCount st (elapse (decodeTime env) w2))))"

text \<open>\<open>Interceptor.ServeHTTP\<close>, lines 122-223. \<open>defer mu.Unlock()\<close> runs when the locked
  part returns, on every way out of it, a panic included.\<close>

definition ServeHTTP :: "env \<Rightarrow> limits \<Rightarrow> request \<Rightarrow> world \<Rightarrow> result \<times> world" where
  "ServeHTTP env lim r w =
    (if Method r \<noteq> MethodPost then forward r w
     else
       (case Body r of
          None \<Rightarrow> (Return StatusBadRequest (Some ErrMissingBody), w)
        | Some rd \<Rightarrow>
           (case ReadAll rd of
              (None, rd') \<Rightarrow> (Return StatusBadRequest (Some ErrMissingBody), w)
            | (Some contents, rd') \<Rightarrow>
               (let r1 = r\<lparr>Body := Some rd'\<rparr> in
                case Unmarshal env contents of
                  None \<Rightarrow> forward r1 w
                | Some command \<Rightarrow>
                   (let r2 = r1\<lparr>Body := Some (NewReader contents)\<rparr> in
                    if Command command \<noteq> attachToTangleCommand then forward r2 w
                    else if MWM command > maxMWM lim \<or> MWM command < 0
                    then (Return StatusBadRequest (Some (ErrInvalidMWM (maxMWM lim))), w)
                    else
                      (let (res, w') = locked env lim command r2 (Lock env w)
                       in (res, Unlock w')))))))"

subsection \<open>Observing a run\<close>

text \<open>The calls to the proof-of-work primitive recorded in a world.\<close>

fun isDoPoW :: "event \<Rightarrow> bool" where
  "isDoPoW (EvDoPoW trunk branch txs mwm) = True"
| "isDoPoW e = False"

definition powCalls :: "world \<Rightarrow> event list" where
  "powCalls w = filter isDoPoW (trace w)"

text \<open>The responses handed to \<open>json.Marshal\<close> recorded in a world.\<close>

fun isMarshal :: "event \<Rightarrow> bool" where
  "isMarshal (EvMarshal res) = True"
| "isMarshal e = False"

definition marshalCalls :: "world \<Rightarrow> event list" where
  "marshalCalls w = filter isMarshal (trace w)"

text \<open>A request is intercepted when it gets past line 148: a POST whose body can be read
  and decodes to a command named \<open>attachToTangle\<close>.\<close>

definition intercepted :: "env \<Rightarrow> request \<Rightarrow> AttachToTangleReq \<Rightarrow> bool" where
  "intercepted env r command =
    (Method r = MethodPost \<and>
     (case Body r of
        None \<Rightarrow> False
      | Some rd \<Rightarrow> \<not> broken rd \<and> Unmarshal env (unread rd) = Some command) \<and>
     Command command = attachToTangleCommand)"

text \<open>The request after line 143, with the bytes that were read put back as its body.\<close>

definition reattached :: "request \<Rightarrow> request" where
  "reattached r =
    (case Body r of None \<Rightarrow> r | Some rd \<Rightarrow> r\<lparr>Body := Some (NewReader (unread rd))\<rparr>)"

text \<open>The two checks of the limits, lines 150 and 167.\<close>

definition mwmOutOfRange :: "limits \<Rightarrow> AttachToTangleReq \<Rightarrow> bool" where
  "mwmOutOfRange lim command = (MWM command > maxMWM lim \<or> MWM command < 0)"

definition overBundleLimit :: "limits \<Rightarrow> AttachToTangleReq \<Rightarrow> bool" where
  "overBundleLimit lim command = (int (length (Trytes command)) > maxTxInBundle lim)"

text \<open>A command gets as far as the proof of work: both limits hold, the batch is not
  empty and every transaction of it decodes.\<close>

definition reachesCompute :: "env \<Rightarrow> limits \<Rightarrow> AttachToTangleReq \<Rightarrow> bool" where
  "reachesCompute env lim command =
    (\<not> mwmOutOfRange lim command \<and> Trytes command \<noteq> [] \<and> \<not> overBundleLimit lim command \<and>
     list_all (\<lambda>t. AsTransactionObject env t \<noteq> None) (Trytes command))"

text \<open>The call to \<open>pow.DoPoW\<close> that a command leads to, line 203.\<close>

definition powCall :: "AttachToTangleReq \<Rightarrow> event" where
  "powCall command =
    EvDoPoW (TrunkTxHash command) (BranchTxHash command) (Trytes command)
      (word_of_int (MWM command))"

subsection \<open>Sample inputs\<close>

text \<open>Five request bodies and the commands they decode to. Real transaction trytes are
  2673 characters long; the samples use short stand-ins, \<open>AA\<close> for one that decodes and
  \<open>ZZ\<close> for one that does not.\<close>

definition cmd :: "int \<Rightarrow> Trytes list \<Rightarrow> AttachToTangleReq" where
  "cmd mwm txs = \<lparr>Command = ''attachToTangle'', TrunkTxHash = ''T'', BranchTxHash = ''B'',
                  MWM = mwm, Trytes = txs\<rparr>"

definition bodyNoJSON :: string where
  \<open>bodyNoJSON = ''{"command":''\<close>

definition bodyBadMWM :: string where
  \<open>bodyBadMWM = ''{"command":"attachToTangle","trunkTransaction":"T","branchTransaction":"B","minWeightMagnitude":15,"trytes":[]}''\<close>

definition bodyEmpty :: string where
  \<open>bodyEmpty = ''{"command":"attachToTangle","trunkTransaction":"T","branchTransaction":"B","minWeightMagnitude":14,"trytes":[]}''\<close>

definition bodyBadTxBadMWM :: string where
  \<open>bodyBadTxBadMWM = ''{"command":"attachToTangle","trunkTransaction":"T","branchTransaction":"B","minWeightMagnitude":15,"trytes":["ZZ"]}''\<close>

definition bodyBadTx :: string where
  \<open>bodyBadTx = ''{"command":"attachToTangle","trunkTransaction":"T","branchTransaction":"B","minWeightMagnitude":14,"trytes":["AA","ZZ"]}''\<close>

definition bodyGood :: string where
  \<open>bodyGood = ''{"command":"attachToTangle","trunkTransaction":"T","branchTransaction":"B","minWeightMagnitude":14,"trytes":["AA"]}''\<close>

definition sampleUnmarshal :: "string \<Rightarrow> AttachToTangleReq option" where
  "sampleUnmarshal body =
    (if body = bodyBadMWM then Some (cmd 15 [])
     else if body = bodyEmpty then Some (cmd 14 [])
     else if body = bodyBadTxBadMWM then Some (cmd 15 [''ZZ''])
     else if body = bodyBadTx then Some (cmd 14 [''AA'', ''ZZ''])
     else if body = bodyGood then Some (cmd 14 [''AA''])
     else None)"

definition sampleTx :: Transaction where
  "sampleTx = \<lparr>Address = ''ADDR'', Value = 0, Bundle = ''BUNDLE''\<rparr>"

definition sampleEnv :: env where
  "sampleEnv =
    \<lparr>Unmarshal = sampleUnmarshal,
     Marshal = (\<lambda>res. Some ''{}''),
     AsTransactionObject = (\<lambda>t. if t = ''AA'' then Some sampleTx else None),
     DoPoW = (\<lambda>trunk branch txs mwm. Some txs),
     writeFails = False,
     lockWait = 0, decodeTime = 0, powTime = 0, logTime = 0\<rparr>"

text \<open>The sample environment with a proof of work that fails, and with a wait of \<open>a\<close>
  nanoseconds for the mutex and a proof of work that takes \<open>b\<close> nanoseconds.\<close>

definition failingEnv :: env where
  "failingEnv = sampleEnv\<lparr>DoPoW := (\<lambda>trunk branch txs mwm. None)\<rparr>"

definition waitingEnv :: "nat \<Rightarrow> nat \<Rightarrow> env" where
  "waitingEnv a b = sampleEnv\<lparr>lockWait := a, powTime := b\<rparr>"

definition post :: "string \<Rightarrow> request" where
  "post body = \<lparr>Method = ''POST'', Body = Some \<lparr>unread = body, broken = False\<rparr>,
                RemoteAddr = ''10.0.0.7:4100''\<rparr>"

definition world0 :: world where
  "world0 = \<lparr>clock = 0, held = False, trace = []\<rparr>"

definition limits0 :: limits where
  "limits0 = \<lparr>maxMWM = 14, maxTxInBundle = 20\<rparr>"

section \<open>Properties\<close>

subsection \<open>The primitive steps and the decoding loop\<close>

lemma emit_simps [simp]:
  "trace (emit e w) = trace w @ [e]" "clock (emit e w) = clock w" "held (emit e w) = held w"
  by (simp_all add: emit_def)

lemma logf_simps [simp]:
  "trace (logf l w) = trace w @ [EvLog l]" "clock (logf l w) = clock w" "held (logf l w) = held w"
  by (simp_all add: logf_def)

lemma elapse_simps [simp]:
  "trace (elapse d w) = trace w" "clock (elapse d w) = clock w + word_of_nat d"
  "held (elapse d w) = held w"
  by (simp_all add: elapse_def)

lemma Lock_simps [simp]:
  "trace (Lock env w) = trace w @ [EvLock]"
  "clock (Lock env w) = clock w + word_of_nat (lockWait env)"
  "held (Lock env w) = True"
  by (simp_all add: Lock_def)

lemma Unlock_simps [simp]:
  "trace (Unlock w) = trace w @ [EvUnlock]" "clock (Unlock w) = clock w" "held (Unlock w) = False"
  by (simp_all add: Unlock_def)

lemma powCalls_simps [simp]:
  "powCalls (emit e w) = powCalls w @ (if isDoPoW e then [e] else [])"
  "powCalls (logf l w) = powCalls w"
  "powCalls (elapse d w) = powCalls w"
  "powCalls (Lock env w) = powCalls w"
  "powCalls (Unlock w) = powCalls w"
  by (simp_all add: powCalls_def)

lemma tallyValue_transactions [simp]:
  "transactions (fst (tallyValue tx st w)) = transactions st"
  by (simp add: tallyValue_def Let_def)

lemma tallyValue_world [simp]:
  "clock (snd (tallyValue tx st w)) = clock w"
  "held (snd (tallyValue tx st w)) = held w"
  "powCalls (snd (tallyValue tx st w)) = powCalls w"
  by (simp_all add: tallyValue_def Let_def)

lemma decodeLoop_world:
  "decodeLoop env txs n st w = (res, st', w') \<Longrightarrow>
     clock w' = clock w \<and> held w' = held w \<and> powCalls w' = powCalls w"
proof (induction n arbitrary: st w)
  case 0
  then show ?case by simp
next
  case (Suc n)
  show ?case
  proof (cases "tallyValue (the (AsTransactionObject env (txs ! n))) st w")
    case (Pair st1 w1)
    with tallyValue_world [of "the (AsTransactionObject env (txs ! n))" st w]
    have "clock w1 = clock w" "held w1 = held w" "powCalls w1 = powCalls w"
      by simp_all
    with Suc Pair show ?thesis
      by (auto simp: index_def split: option.splits if_splits)
  qed
qed

lemma decodeLoop_in_range:
  "decodeLoop env txs n st w = (res, st', w') \<Longrightarrow> n \<le> length txs \<Longrightarrow>
   length (transactions st) = length txs \<Longrightarrow>
     res \<noteq> OutOfRange \<and> length (transactions st') = length txs"
proof (induction n arbitrary: st w)
  case 0
  then show ?case by simp
next
  case (Suc n)
  show ?case
  proof (cases "tallyValue (the (AsTransactionObject env (txs ! n))) st w")
    case (Pair st1 w1)
    with tallyValue_transactions [of "the (AsTransactionObject env (txs ! n))" st w]
    have "transactions st1 = transactions st"
      by simp
    with Suc Pair show ?thesis
      by (auto simp: index_def split: option.splits if_splits)
  qed
qed

lemma decodeLoop_filled:
  "decodeLoop env txs n st w = (Done, st', w') \<Longrightarrow> n \<le> length txs \<Longrightarrow>
   length (transactions st) = length txs \<Longrightarrow>
     (\<forall>i<n. AsTransactionObject env (txs ! i) = Some (transactions st' ! i)) \<and>
     (\<forall>i. n \<le> i \<longrightarrow> transactions st' ! i = transactions st ! i)"
proof (induction n arbitrary: st w)
  case 0
  then show ?case by simp
next
  case (Suc n)
  from Suc.prems obtain tx where tx: "AsTransactionObject env (txs ! n) = Some tx"
    by (auto simp: index_def split: option.splits)
  obtain st1 w1 where tally: "tallyValue tx st w = (st1, w1)"
    by (cases "tallyValue tx st w")
  with tallyValue_transactions [of tx st w] have same: "transactions st1 = transactions st"
    by simp
  with Suc.prems have len: "length (transactions st1) = length txs"
    by simp
  from Suc.prems tx tally len
  have rec: "decodeLoop env txs n (st1\<lparr>transactions := (transactions st1)[n := tx]\<rparr>) w1
               = (Done, st', w')"
    by (simp add: index_def)
  from Suc.IH [OF rec] Suc.prems len
  have below: "\<forall>i<n. AsTransactionObject env (txs ! i) = Some (transactions st' ! i)"
    and above: "\<forall>i. n \<le> i \<longrightarrow> transactions st' ! i = (transactions st1)[n := tx] ! i"
    by simp_all
  from above len Suc.prems have "transactions st' ! n = tx"
    by simp
  with tx below have "\<forall>i<Suc n. AsTransactionObject env (txs ! i) = Some (transactions st' ! i)"
    by (simp add: less_Suc_eq)
  moreover from above same
  have "\<forall>i. Suc n \<le> i \<longrightarrow> transactions st' ! i = transactions st ! i"
    by simp
  ultimately show ?case by simp
qed

lemma decodeLoop_all_decodable:
  "decodeLoop env txs n st w = (res, st', w') \<Longrightarrow> n \<le> length txs \<Longrightarrow>
   length (transactions st) = length txs \<Longrightarrow> res \<noteq> DecodeFailed \<Longrightarrow>
     (\<forall>i<n. AsTransactionObject env (txs ! i) \<noteq> None)"
proof (induction n arbitrary: st w)
  case 0
  then show ?case by simp
next
  case (Suc n)
  show ?case
  proof (cases "tallyValue (the (AsTransactionObject env (txs ! n))) st w")
    case (Pair st1 w1)
    with tallyValue_transactions [of "the (AsTransactionObject env (txs ! n))" st w]
    have "transactions st1 = transactions st"
      by simp
    with Suc Pair show ?thesis
      by (auto simp: index_def less_Suc_eq split: option.splits if_splits)
  qed
qed

lemma marshalCalls_simps [simp]:
  "marshalCalls (emit e w) = marshalCalls w @ (if isMarshal e then [e] else [])"
  "marshalCalls (logf l w) = marshalCalls w"
  "marshalCalls (elapse d w) = marshalCalls w"
  "marshalCalls (Lock env w) = marshalCalls w"
  "marshalCalls (Unlock w) = marshalCalls w"
  by (simp_all add: marshalCalls_def)

lemma ServeHTTP_intercepted:
  assumes "intercepted env r command"
  shows "ServeHTTP env lim r w =
    (if mwmOutOfRange lim command
     then (Return StatusBadRequest (Some (ErrInvalidMWM (maxMWM lim))), w)
     else (fst (locked env lim command (reattached r) (Lock env w)),
           Unlock (snd (locked env lim command (reattached r) (Lock env w)))))"
  using assms
  by (auto simp: intercepted_def ServeHTTP_def ReadAll_def reattached_def mwmOutOfRange_def
      case_prod_beta Let_def split: option.splits)

lemma locked_empty:
  "Trytes command = [] \<Longrightarrow> locked env lim command r w = forward r w"
  by (simp add: locked_def)

lemma locked_over:
  "Trytes command \<noteq> [] \<Longrightarrow> overBundleLimit lim command \<Longrightarrow>
   locked env lim command r w =
     (Return StatusBadRequest (Some (ErrTxBundleLimitExceeded (maxTxInBundle lim))),
      logf (LogCanceling (int (length (Trytes command))) (maxTxInBundle lim))
        (logf (LogNewRequest (RemoteAddr r)) w))"
  by (simp add: locked_def overBundleLimit_def Let_def)

lemma locked_decode:
  "Trytes command \<noteq> [] \<Longrightarrow> \<not> overBundleLimit lim command \<Longrightarrow>
   decodeLoop env (Trytes command) (length (Trytes command))
     (loopInit (length (Trytes command))) (logf (LogNewRequest (RemoteAddr r)) w) = (res, st, w2) \<Longrightarrow>
   locked env lim command r w =
     (case res of
        DecodeFailed \<Rightarrow> (Return StatusBadRequest (Some ErrBuildingTx), w2)
      | OutOfRange \<Rightarrow> (Panic, w2)
      | Done \<Rightarrow> compute env command (clock w) (length (Trytes command)) st
                  (elapse (decodeTime env) w2))"
  by (simp add: locked_def overBundleLimit_def Let_def loopInit_def UnixNano_def
      split: loopres.splits)

lemma compute_powCalls:
  "index (transactions st) 0 \<noteq> None \<Longrightarrow>
   powCalls (snd (compute env command start n st w)) =
     powCalls w @ [EvDoPoW (TrunkTxHash command) (BranchTxHash command) (Trytes command)
                     (word_of_int (MWM command))]"
  by (auto simp: compute_def Let_def split: option.splits)

lemma compute_result:
  "index (transactions st) 0 \<noteq> None \<Longrightarrow>
   fst (compute env command start n st w) =
     (case DoPoW env (TrunkTxHash command) (BranchTxHash command) (Trytes command)
             (word_of_int (MWM command)) of
        None \<Rightarrow> Return StatusBadRequest (Some ErrExecutingProofOfWork)
      | Some powed \<Rightarrow>
         (case Marshal env \<lparr>ResTrytes = powed,
                  Duration = quo64 (clock w + word_of_nat (powTime env)
                                     + word_of_nat (logTime env) - start) 1000000\<rparr> of
            None \<Rightarrow> Return StatusInternalServerError (Some ErrBuildingRes)
          | Some bytes \<Rightarrow>
             if writeFails env then Return StatusInternalServerError (Some ErrBuildingRes)
             else Return StatusOK None))"
  by (auto simp: compute_def Let_def UnixNano_def split: option.splits)

lemma compute_marshalCalls:
  "index (transactions st) 0 \<noteq> None \<Longrightarrow>
   DoPoW env (TrunkTxHash command) (BranchTxHash command) (Trytes command)
     (word_of_int (MWM command)) = Some powed \<Longrightarrow>
   marshalCalls (snd (compute env command start n st w)) =
     marshalCalls w @ [EvMarshal \<lparr>ResTrytes = powed,
        Duration = quo64 (clock w + word_of_nat (powTime env)
                           + word_of_nat (logTime env) - start) 1000000\<rparr>]"
  by (auto simp: compute_def Let_def UnixNano_def split: option.splits)

lemma compute_trace:
  "\<exists>evs. trace (snd (compute env command start n st w)) = trace w @ evs"
  by (auto simp: compute_def Let_def split: option.splits)

lemma compute_held:
  "held (snd (compute env command start n st w)) = held w"
  by (auto simp: compute_def Let_def split: option.splits)

lemma compute_clock:
  "fst (compute env command start n st w) = Return StatusOK None \<Longrightarrow>
   clock (snd (compute env command start n st w)) =
     clock w + word_of_nat (powTime env) + word_of_nat (logTime env)"
  by (auto simp: compute_def Let_def StatusOK_def StatusBadRequest_def
      StatusInternalServerError_def split: option.splits if_splits)

lemma loopInit_length [simp]: "length (transactions (loopInit n)) = n"
  by (simp add: loopInit_def)

lemma tallyValue_trace:
  "\<exists>evs. trace (snd (tallyValue tx st w)) = trace w @ evs"
  by (simp add: tallyValue_def Let_def)

lemma decodeLoop_trace:
  "decodeLoop env txs n st w = (res, st', w') \<Longrightarrow> \<exists>evs. trace w' = trace w @ evs"
proof (induction n arbitrary: st w)
  case 0
  then show ?case by simp
next
  case (Suc n)
  show ?case
  proof (cases "tallyValue (the (AsTransactionObject env (txs ! n))) st w")
    case (Pair st1 w1)
    with tallyValue_trace [of "the (AsTransactionObject env (txs ! n))" st w]
    obtain evs1 where "trace w1 = trace w @ evs1"
      by auto
    with Suc Pair show ?thesis
      by (fastforce simp: index_def split: option.splits if_splits)
  qed
qed

lemma locked_trace:
  "\<exists>evs. trace (snd (locked env lim command r w)) = trace w @ evs"
proof (cases "Trytes command = []")
  case True
  then show ?thesis by (simp add: locked_empty forward_def)
next
  case nonempty: False
  show ?thesis
  proof (cases "overBundleLimit lim command")
    case True
    with nonempty show ?thesis by (simp add: locked_over)
  next
    case False
    obtain res st w2 where loop:
      "decodeLoop env (Trytes command) (length (Trytes command))
         (loopInit (length (Trytes command))) (logf (LogNewRequest (RemoteAddr r)) w) = (res, st, w2)"
      by (metis prod_cases3)
    from decodeLoop_trace [OF loop] obtain evs where evs: "trace w2 = trace w @ evs"
      by auto
    from compute_trace [of env command "clock w" "length (Trytes command)" st
        "elapse (decodeTime env) w2"] evs
    have "\<exists>evs'. trace (snd (compute env command (clock w) (length (Trytes command)) st
        (elapse (decodeTime env) w2))) = trace w @ evs'"
      by auto
    with nonempty False loop evs show ?thesis
      by (auto simp: locked_decode split: loopres.splits)
  qed
qed

lemma locked_not_Panic: "fst (locked env lim command r w) \<noteq> Panic"
proof (cases "Trytes command = []")
  case True
  then show ?thesis by (simp add: locked_empty forward_def)
next
  case nonempty: False
  show ?thesis
  proof (cases "overBundleLimit lim command")
    case True
    with nonempty show ?thesis by (simp add: locked_over)
  next
    case False
    obtain res st w2 where loop:
      "decodeLoop env (Trytes command) (length (Trytes command))
         (loopInit (length (Trytes command))) (logf (LogNewRequest (RemoteAddr r)) w) = (res, st, w2)"
      by (metis prod_cases3)
    from decodeLoop_in_range [OF loop]
    have res: "res \<noteq> OutOfRange" and len: "length (transactions st) = length (Trytes command)"
      by simp_all
    from len nonempty have "index (transactions st) 0 \<noteq> None"
      by (simp add: index_def)
    then have "fst (compute env command (clock w) (length (Trytes command)) st
        (elapse (decodeTime env) w2)) \<noteq> Panic"
      by (simp add: compute_result split: option.splits)
    with nonempty False loop res show ?thesis
      by (simp add: locked_decode split: loopres.splits)
  qed
qed

lemma locked_Panic_False: "locked env lim command r w = (Panic, w') \<Longrightarrow> False"
  using locked_not_Panic [of env lim command r w] by simp

lemma ServeHTTP_never_panics: "fst (ServeHTTP env lim r w) \<noteq> Panic"
  by (auto simp: ServeHTTP_def forward_def Let_def split: option.splits prod.splits
      dest: locked_Panic_False)

subsection \<open>A body that is not a command\<close>

text \<open>
  Claim C1 says that a POST whose body does not decode is forwarded with the original
  bytes put back as its body. The handler forwards it at line 139, before the body is
  put back at line 143: the next handler receives the request with the stream that
  \<open>ioutil.ReadAll\<close> has consumed, so it reads an empty body. The theorem states what the
  handler does.
\<close>

theorem undecodable_body_forwarded_drained:
  assumes "Method r = MethodPost" and "Body r = Some rd" and "\<not> broken rd"
    and "Unmarshal env (unread rd) = None"
  shows "ServeHTTP env lim r w = forward (r\<lparr>Body := Some (rd\<lparr>unread := []\<rparr>)\<rparr>) w"
  using assms by (simp add: ServeHTTP_def ReadAll_def)

text \<open>At the sample body \<open>{"command":\<close> the next handler is given an empty body.\<close>

theorem undecodable_body_forwarded_drained_at_sample:
  "fst (ServeHTTP sampleEnv limits0 (post bodyNoJSON) world0) = Forwarded (post [])
   \<and> unread (the (Body (post bodyNoJSON))) = bodyNoJSON \<and> bodyNoJSON \<noteq> []"
  using undecodable_body_forwarded_drained
    [of "post bodyNoJSON" "\<lparr>unread = bodyNoJSON, broken = False\<rparr>" sampleEnv limits0 world0]
  by (simp add: post_def MethodPost_def sampleEnv_def sampleUnmarshal_def bodyNoJSON_def
      bodyBadMWM_def bodyEmpty_def bodyBadTxBadMWM_def bodyBadTx_def bodyGood_def forward_def)

subsection \<open>The check of the difficulty\<close>

lemma locked_not_InvalidMWM:
  "fst (locked env lim command r w) \<noteq> Return s (Some (ErrInvalidMWM m))"
proof (cases "Trytes command = []")
  case True
  then show ?thesis by (simp add: locked_empty forward_def)
next
  case nonempty: False
  show ?thesis
  proof (cases "overBundleLimit lim command")
    case True
    with nonempty show ?thesis by (simp add: locked_over)
  next
    case False
    obtain res st w2 where loop:
      "decodeLoop env (Trytes command) (length (Trytes command))
         (loopInit (length (Trytes command))) (logf (LogNewRequest (RemoteAddr r)) w) = (res, st, w2)"
      by (metis prod_cases3)
    from decodeLoop_in_range [OF loop]
    have len: "length (transactions st) = length (Trytes command)"
      by simp
    from len nonempty have "index (transactions st) 0 \<noteq> None"
      by (simp add: index_def)
    then have "fst (compute env command (clock w) (length (Trytes command)) st
        (elapse (decodeTime env) w2)) \<noteq> Return s (Some (ErrInvalidMWM m))"
      by (simp add: compute_result split: option.splits)
    with nonempty False loop show ?thesis
      by (simp add: locked_decode split: loopres.splits)
  qed
qed

text \<open>
  Claim C4: an intercepted request is rejected by the check of the difficulty, with status
  400 and the error \<open>ErrInvalidMWM\<close>, exactly when its difficulty is negative or greater
  than the configured maximum; a difficulty from 0 to the maximum passes the check. On
  such a rejection the world is unchanged: the mutex was not taken and the proof-of-work
  primitive was not called.
\<close>

theorem difficulty_check:
  assumes "intercepted env r command"
  shows "(fst (ServeHTTP env lim r w)
            = Return StatusBadRequest (Some (ErrInvalidMWM (maxMWM lim)))
          \<longleftrightarrow> MWM command < 0 \<or> maxMWM lim < MWM command)
       \<and> (MWM command < 0 \<or> maxMWM lim < MWM command
          \<longrightarrow> snd (ServeHTTP env lim r w) = w)"
proof (cases "mwmOutOfRange lim command")
  case True
  with assms show ?thesis
    by (auto simp: ServeHTTP_intercepted mwmOutOfRange_def)
next
  case False
  with locked_not_InvalidMWM [of env lim command "reattached r" "Lock env w"]
  have "fst (ServeHTTP env lim r w)
          \<noteq> Return StatusBadRequest (Some (ErrInvalidMWM (maxMWM lim)))"
    using assms by (simp add: ServeHTTP_intercepted)
  with False show ?thesis
    by (auto simp: mwmOutOfRange_def)
qed

lemma cmd_simps [simp]:
  "Command (cmd m txs) = ''attachToTangle''" "TrunkTxHash (cmd m txs) = ''T''"
  "BranchTxHash (cmd m txs) = ''B''" "MWM (cmd m txs) = m" "Trytes (cmd m txs) = txs"
  by (simp_all add: cmd_def)

lemma sample_intercepted:
  "intercepted sampleEnv (post bodyBadMWM) (cmd 15 [])"
  "intercepted sampleEnv (post bodyEmpty) (cmd 14 [])"
  "intercepted sampleEnv (post bodyBadTxBadMWM) (cmd 15 [''ZZ''])"
  "intercepted sampleEnv (post bodyBadTx) (cmd 14 [''AA'', ''ZZ''])"
  "intercepted sampleEnv (post bodyGood) (cmd 14 [''AA''])"
  by (simp_all add: intercepted_def post_def MethodPost_def sampleEnv_def sampleUnmarshal_def
      bodyBadMWM_def bodyEmpty_def bodyBadTxBadMWM_def bodyBadTx_def bodyGood_def cmd_def
      attachToTangleCommand_def)

theorem difficulty_check_at_sample:
  "intercepted sampleEnv (post bodyBadMWM) (cmd 15 [])
   \<and> maxMWM limits0 < MWM (cmd 15 [])
   \<and> ServeHTTP sampleEnv limits0 (post bodyBadMWM) world0
       = (Return StatusBadRequest (Some (ErrInvalidMWM 14)), world0)"
  using difficulty_check [OF sample_intercepted(1), of limits0 world0] sample_intercepted(1)
  by (simp add: limits0_def prod_eq_iff)

text \<open>
  Claim C10: an intercepted request that breaks both limits gets the error of the
  difficulty, and nothing has happened by then, the mutex is not taken. A request that
  breaks the limit on the batch alone gets its error with the mutex held: the trace shows
  the lock before the two log lines and the unlock after them.
\<close>

theorem difficulty_before_bundle_limit:
  assumes "intercepted env r command"
  shows "(mwmOutOfRange lim command \<and> overBundleLimit lim command \<longrightarrow>
            ServeHTTP env lim r w
              = (Return StatusBadRequest (Some (ErrInvalidMWM (maxMWM lim))), w))
       \<and> (\<not> mwmOutOfRange lim command \<and> Trytes command \<noteq> [] \<and> overBundleLimit lim command \<longrightarrow>
            fst (ServeHTTP env lim r w)
              = Return StatusBadRequest (Some (ErrTxBundleLimitExceeded (maxTxInBundle lim)))
            \<and> trace (snd (ServeHTTP env lim r w))
              = trace w @ [EvLock, EvLog (LogNewRequest (RemoteAddr r)),
                  EvLog (LogCanceling (int (length (Trytes command))) (maxTxInBundle lim)),
                  EvUnlock])"
  using assms
  by (auto simp: ServeHTTP_intercepted locked_over reattached_def split: option.splits)

theorem difficulty_before_bundle_limit_at_sample:
  "intercepted sampleEnv (post bodyBadTxBadMWM) (cmd 15 [''ZZ''])
   \<and> mwmOutOfRange limits0 (cmd 15 [''ZZ''])
   \<and> overBundleLimit (limits0\<lparr>maxTxInBundle := 0\<rparr>) (cmd 15 [''ZZ''])
   \<and> ServeHTTP sampleEnv (limits0\<lparr>maxTxInBundle := 0\<rparr>) (post bodyBadTxBadMWM) world0
       = (Return StatusBadRequest (Some (ErrInvalidMWM 14)), world0)"
  using difficulty_before_bundle_limit [OF sample_intercepted(3),
      of "limits0\<lparr>maxTxInBundle := 0\<rparr>" world0] sample_intercepted(3)
  by (simp add: limits0_def mwmOutOfRange_def overBundleLimit_def)

lemma tallyValue_marshalCalls [simp]:
  "marshalCalls (snd (tallyValue tx st w)) = marshalCalls w"
  by (simp add: tallyValue_def Let_def)

lemma decodeLoop_marshalCalls:
  "decodeLoop env txs n st w = (res, st', w') \<Longrightarrow> marshalCalls w' = marshalCalls w"
proof (induction n arbitrary: st w)
  case 0
  then show ?case by simp
next
  case (Suc n)
  show ?case
  proof (cases "tallyValue (the (AsTransactionObject env (txs ! n))) st w")
    case (Pair st1 w1)
    with tallyValue_marshalCalls [of "the (AsTransactionObject env (txs ! n))" st w]
    have "marshalCalls w1 = marshalCalls w"
      by simp
    with Suc Pair show ?thesis
      by (auto simp: index_def split: option.splits if_splits)
  qed
qed

lemma decodeLoop_not_failed:
  "decodeLoop env txs n st w = (res, st', w') \<Longrightarrow>
   \<forall>i<n. AsTransactionObject env (txs ! i) \<noteq> None \<Longrightarrow> res \<noteq> DecodeFailed"
proof (induction n arbitrary: st w)
  case 0
  then show ?case by simp
next
  case (Suc n)
  show ?case
  proof (cases "tallyValue (the (AsTransactionObject env (txs ! n))) st w")
    case (Pair st1 w1)
    with Suc show ?thesis
      by (auto simp: index_def less_Suc_eq split: option.splits if_splits)
  qed
qed

lemma all_decodable_nth:
  "list_all (\<lambda>t. AsTransactionObject env t \<noteq> None) txs
     \<longleftrightarrow> (\<forall>i<length txs. AsTransactionObject env (txs ! i) \<noteq> None)"
  by (simp add: list_all_length)

text \<open>The whole loop from the state the handler starts it in.\<close>

lemma decodeLoop_from_init:
  assumes "decodeLoop env txs (length txs) (loopInit (length txs)) w = (res, st, w')"
  shows "res \<noteq> OutOfRange" and "length (transactions st) = length txs"
    and "res = Done \<longleftrightarrow> list_all (\<lambda>t. AsTransactionObject env t \<noteq> None) txs"
proof -
  from decodeLoop_in_range [OF assms]
  show range: "res \<noteq> OutOfRange" and "length (transactions st) = length txs"
    by simp_all
  show "res = Done \<longleftrightarrow> list_all (\<lambda>t. AsTransactionObject env t \<noteq> None) txs"
  proof
    assume "res = Done"
    with decodeLoop_all_decodable [OF assms]
    have "\<forall>i<length txs. AsTransactionObject env (txs ! i) \<noteq> None"
      by simp
    then show "list_all (\<lambda>t. AsTransactionObject env t \<noteq> None) txs"
      by (rule all_decodable_nth [THEN iffD2])
  next
    assume "list_all (\<lambda>t. AsTransactionObject env t \<noteq> None) txs"
    then have "\<forall>i<length txs. AsTransactionObject env (txs ! i) \<noteq> None"
      by (rule all_decodable_nth [THEN iffD1])
    then have "res \<noteq> DecodeFailed"
      by (rule decodeLoop_not_failed [OF assms])
    with range show "res = Done"
      by (cases res) simp_all
  qed
qed

text \<open>The two ways through the handler for an intercepted request.\<close>

lemma ServeHTTP_reaches_compute:
  assumes "intercepted env r command" and "reachesCompute env lim command"
  obtains st w2 where
    "ServeHTTP env lim r w =
       (fst (compute env command (clock w + word_of_nat (lockWait env))
               (length (Trytes command)) st w2),
        Unlock (snd (compute env command (clock w + word_of_nat (lockWait env))
               (length (Trytes command)) st w2)))"
    and "clock w2 = clock w + word_of_nat (lockWait env) + word_of_nat (decodeTime env)"
    and "held w2" and "powCalls w2 = powCalls w" and "marshalCalls w2 = marshalCalls w"
    and "index (transactions st) 0 \<noteq> None"
proof -
  let ?w1 = "logf (LogNewRequest (RemoteAddr (reattached r))) (Lock env w)"
  obtain res st w' where loop:
    "decodeLoop env (Trytes command) (length (Trytes command))
       (loopInit (length (Trytes command))) ?w1 = (res, st, w')"
    by (metis prod_cases3)
  from assms(2) have ok: "\<not> mwmOutOfRange lim command" "Trytes command \<noteq> []"
    "\<not> overBundleLimit lim command"
    and dec: "list_all (\<lambda>t. AsTransactionObject env t \<noteq> None) (Trytes command)"
    by (simp_all add: reachesCompute_def)
  from decodeLoop_from_init [OF loop] dec
  have res: "res = Done" and len: "length (transactions st) = length (Trytes command)"
    by simp_all
  from decodeLoop_world [OF loop] decodeLoop_marshalCalls [OF loop]
  have w': "clock w' = clock w + word_of_nat (lockWait env)" "held w'"
    "powCalls w' = powCalls w" "marshalCalls w' = marshalCalls w"
    by simp_all
  show thesis
  proof (rule that [of st "elapse (decodeTime env) w'"])
    from assms(1) ok loop res
    show "ServeHTTP env lim r w =
       (fst (compute env command (clock w + word_of_nat (lockWait env))
               (length (Trytes command)) st (elapse (decodeTime env) w')),
        Unlock (snd (compute env command (clock w + word_of_nat (lockWait env))
               (length (Trytes command)) st (elapse (decodeTime env) w'))))"
      by (simp add: ServeHTTP_intercepted locked_decode)
    from w' show "clock (elapse (decodeTime env) w')
        = clock w + word_of_nat (lockWait env) + word_of_nat (decodeTime env)"
      and "held (elapse (decodeTime env) w')"
      and "powCalls (elapse (decodeTime env) w') = powCalls w"
      and "marshalCalls (elapse (decodeTime env) w') = marshalCalls w"
      by simp_all
    from len ok show "index (transactions st) 0 \<noteq> None"
      by (simp add: index_def)
  qed
qed

lemma ServeHTTP_stops_early:
  assumes "intercepted env r command" and "\<not> reachesCompute env lim command"
  shows "powCalls (snd (ServeHTTP env lim r w)) = powCalls w"
    and "fst (ServeHTTP env lim r w) =
      (if mwmOutOfRange lim command
       then Return StatusBadRequest (Some (ErrInvalidMWM (maxMWM lim)))
       else if Trytes command = [] then Forwarded (reattached r)
       else if overBundleLimit lim command
       then Return StatusBadRequest (Some (ErrTxBundleLimitExceeded (maxTxInBundle lim)))
       else Return StatusBadRequest (Some ErrBuildingTx))"
proof -
  let ?w1 = "logf (LogNewRequest (RemoteAddr (reattached r))) (Lock env w)"
  obtain res st w' where loop:
    "decodeLoop env (Trytes command) (length (Trytes command))
       (loopInit (length (Trytes command))) ?w1 = (res, st, w')"
    by (metis prod_cases3)
  have failed: "res = DecodeFailed"
    if "\<not> mwmOutOfRange lim command" "Trytes command \<noteq> []" "\<not> overBundleLimit lim command"
  proof -
    from that assms(2) decodeLoop_from_init [OF loop] have "res \<noteq> Done" "res \<noteq> OutOfRange"
      by (simp_all add: reachesCompute_def)
    then show ?thesis by (cases res) simp_all
  qed
  from decodeLoop_world [OF loop] have pow: "powCalls w' = powCalls w"
    by simp
  from assms(1) failed loop pow show "powCalls (snd (ServeHTTP env lim r w)) = powCalls w"
    by (cases "mwmOutOfRange lim command"; cases "Trytes command = []";
        cases "overBundleLimit lim command")
       (simp_all add: ServeHTTP_intercepted locked_empty locked_over locked_decode forward_def)
  from assms(1) failed loop show "fst (ServeHTTP env lim r w) =
      (if mwmOutOfRange lim command
       then Return StatusBadRequest (Some (ErrInvalidMWM (maxMWM lim)))
       else if Trytes command = [] then Forwarded (reattached r)
       else if overBundleLimit lim command
       then Return StatusBadRequest (Some (ErrTxBundleLimitExceeded (maxTxInBundle lim)))
       else Return StatusBadRequest (Some ErrBuildingTx))"
    by (cases "mwmOutOfRange lim command"; cases "Trytes command = []";
        cases "overBundleLimit lim command")
       (simp_all add: ServeHTTP_intercepted locked_empty locked_over locked_decode forward_def)
qed

lemma ServeHTTP_powCalls:
  assumes "intercepted env r command"
  shows "powCalls (snd (ServeHTTP env lim r w)) =
           powCalls w @ (if reachesCompute env lim command then [powCall command] else [])"
proof (cases "reachesCompute env lim command")
  case True
  from ServeHTTP_reaches_compute [OF assms True, of w] obtain st w2 where
    "ServeHTTP env lim r w =
       (fst (compute env command (clock w + word_of_nat (lockWait env))
               (length (Trytes command)) st w2),
        Unlock (snd (compute env command (clock w + word_of_nat (lockWait env))
               (length (Trytes command)) st w2)))"
    and "powCalls w2 = powCalls w" and "index (transactions st) 0 \<noteq> None"
    by blast
  with True show ?thesis
    by (simp add: compute_powCalls powCall_def)
next
  case False
  with ServeHTTP_stops_early(1) [OF assms False] show ?thesis
    by simp
qed

lemma ServeHTTP_locked_section:
  assumes "intercepted env r command" and "\<not> mwmOutOfRange lim command"
  shows "\<not> held (snd (ServeHTTP env lim r w))"
    and "\<exists>evs. trace (snd (ServeHTTP env lim r w)) = trace w @ [EvLock] @ evs @ [EvUnlock]"
proof -
  from assms show "\<not> held (snd (ServeHTTP env lim r w))"
    by (simp add: ServeHTTP_intercepted)
  from locked_trace [of env lim command "reattached r" "Lock env w"]
  obtain evs where "trace (snd (locked env lim command (reattached r) (Lock env w)))
      = trace w @ [EvLock] @ evs"
    by auto
  with assms show "\<exists>evs. trace (snd (ServeHTTP env lim r w)) = trace w @ [EvLock] @ evs @ [EvUnlock]"
    by (simp add: ServeHTTP_intercepted)
qed

lemma sample_decodes [simp]:
  "AsTransactionObject sampleEnv ''AA'' = Some sampleTx"
  "AsTransactionObject sampleEnv ''ZZ'' = None"
  by (simp_all add: sampleEnv_def)

lemma reattached_post [simp]: "reattached (post body) = post body"
  by (simp add: reattached_def post_def NewReader_def)

subsection \<open>The limit on the batch\<close>

text \<open>
  Claim C5, as amended: for an intercepted request whose batch is longer than the configured
  maximum the proof-of-work primitive is never called, and when the batch is not empty
  the request is rejected with status 400 (with the error of the difficulty when that
  check fails first, with \<open>ErrTxBundleLimitExceeded\<close> otherwise). An empty batch is
  longer than a negative maximum and is forwarded.
\<close>

theorem bundle_limit_check:
  assumes "intercepted env r command" and "overBundleLimit lim command"
  shows "powCalls (snd (ServeHTTP env lim r w)) = powCalls w
       \<and> (Trytes command \<noteq> [] \<longrightarrow>
            fst (ServeHTTP env lim r w) =
              Return StatusBadRequest
                (Some (if mwmOutOfRange lim command then ErrInvalidMWM (maxMWM lim)
                       else ErrTxBundleLimitExceeded (maxTxInBundle lim))))"
proof -
  from assms(2) have stop: "\<not> reachesCompute env lim command"
    by (simp add: reachesCompute_def)
  from ServeHTTP_stops_early [OF assms(1) stop, of w] assms(2) show ?thesis
    by simp
qed

theorem bundle_limit_check_at_sample:
  "intercepted sampleEnv (post bodyBadTx) (cmd 14 [''AA'', ''ZZ''])
   \<and> overBundleLimit (limits0\<lparr>maxTxInBundle := 1\<rparr>) (cmd 14 [''AA'', ''ZZ''])
   \<and> powCalls (snd (ServeHTTP sampleEnv (limits0\<lparr>maxTxInBundle := 1\<rparr>) (post bodyBadTx) world0))
       = powCalls world0
   \<and> fst (ServeHTTP sampleEnv (limits0\<lparr>maxTxInBundle := 1\<rparr>) (post bodyBadTx) world0)
       = Return StatusBadRequest (Some (ErrTxBundleLimitExceeded 1))"
  using bundle_limit_check [OF sample_intercepted(4),
      of "limits0\<lparr>maxTxInBundle := 1\<rparr>" world0] sample_intercepted(4)
  by (simp add: limits0_def overBundleLimit_def mwmOutOfRange_def)

text \<open>With the maximum set to -1 the empty batch of the sample is over the limit, and the
  request is handed to the next handler.\<close>

theorem bundle_limit_empty_batch_forwarded:
  "intercepted sampleEnv (post bodyEmpty) (cmd 14 [])
   \<and> overBundleLimit (limits0\<lparr>maxTxInBundle := - 1\<rparr>) (cmd 14 [])
   \<and> fst (ServeHTTP sampleEnv (limits0\<lparr>maxTxInBundle := - 1\<rparr>) (post bodyEmpty) world0)
       = Forwarded (post bodyEmpty)"
  using sample_intercepted(2)
  by (simp add: ServeHTTP_intercepted [OF sample_intercepted(2)] locked_empty forward_def
      limits0_def overBundleLimit_def mwmOutOfRange_def)

subsection \<open>The empty batch\<close>

text \<open>
  Claim C6, as amended: an intercepted request with an empty batch whose difficulty is
  within the limit is handed to the next handler, with its body put back, while the
  mutex is held. And whatever the request, the proof-of-work primitive is called at most
  once, and only with a batch that is not empty.
\<close>

theorem empty_batch_passthrough:
  assumes "intercepted env r command"
  shows "(Trytes command = [] \<and> \<not> mwmOutOfRange lim command \<longrightarrow>
            fst (ServeHTTP env lim r w) = Forwarded (reattached r)
            \<and> trace (snd (ServeHTTP env lim r w))
                = trace w @ [EvLock, EvNext (reattached r), EvUnlock])
       \<and> (powCalls (snd (ServeHTTP env lim r w)) = powCalls w
          \<or> Trytes command \<noteq> []
            \<and> powCalls (snd (ServeHTTP env lim r w)) = powCalls w @ [powCall command])"
proof -
  from assms have "Trytes command = [] \<and> \<not> mwmOutOfRange lim command \<longrightarrow>
            fst (ServeHTTP env lim r w) = Forwarded (reattached r)
            \<and> trace (snd (ServeHTTP env lim r w))
                = trace w @ [EvLock, EvNext (reattached r), EvUnlock]"
    by (simp add: ServeHTTP_intercepted locked_empty forward_def)
  moreover from ServeHTTP_powCalls [OF assms, of lim w]
  have "powCalls (snd (ServeHTTP env lim r w)) = powCalls w
          \<or> Trytes command \<noteq> []
            \<and> powCalls (snd (ServeHTTP env lim r w)) = powCalls w @ [powCall command]"
    by (simp add: reachesCompute_def split: if_splits)
  ultimately show ?thesis by blast
qed

theorem empty_batch_passthrough_at_sample:
  "intercepted sampleEnv (post bodyEmpty) (cmd 14 [])
   \<and> Trytes (cmd 14 []) = [] \<and> \<not> mwmOutOfRange limits0 (cmd 14 [])
   \<and> fst (ServeHTTP sampleEnv limits0 (post bodyEmpty) world0) = Forwarded (post bodyEmpty)
   \<and> trace (snd (ServeHTTP sampleEnv limits0 (post bodyEmpty) world0))
       = [EvLock, EvNext (post bodyEmpty), EvUnlock]"
  using empty_batch_passthrough [OF sample_intercepted(2), of limits0 world0]
    sample_intercepted(2)
  by (simp add: limits0_def mwmOutOfRange_def world0_def)

text \<open>The empty batch of the sample with the difficulty 15 is rejected, not forwarded.\<close>

theorem empty_batch_rejected_for_difficulty:
  "intercepted sampleEnv (post bodyBadMWM) (cmd 15 [])
   \<and> Trytes (cmd 15 []) = []
   \<and> fst (ServeHTTP sampleEnv limits0 (post bodyBadMWM) world0)
       = Return StatusBadRequest (Some (ErrInvalidMWM 14))"
  using sample_intercepted(1)
  by (simp add: ServeHTTP_intercepted [OF sample_intercepted(1)] limits0_def mwmOutOfRange_def)

subsection \<open>A transaction that does not decode\<close>

text \<open>
  Claim C7, as amended: an intercepted request with a transaction that does not decode is
  rejected with status 400 and the proof-of-work primitive is never called. The error is
  \<open>ErrBuildingTx\<close> when both limits hold; when a limit is broken the request is rejected
  by that check, with its error, before any transaction is decoded.
\<close>

theorem undecodable_transaction_rejected:
  assumes "intercepted env r command"
    and "\<exists>t \<in> set (Trytes command). AsTransactionObject env t = None"
  shows "powCalls (snd (ServeHTTP env lim r w)) = powCalls w
       \<and> fst (ServeHTTP env lim r w) =
           Return StatusBadRequest
             (Some (if mwmOutOfRange lim command then ErrInvalidMWM (maxMWM lim)
                    else if overBundleLimit lim command
                    then ErrTxBundleLimitExceeded (maxTxInBundle lim)
                    else ErrBuildingTx))"
proof -
  from assms(2) have stop: "\<not> reachesCompute env lim command"
    by (auto simp: reachesCompute_def list_all_iff)
  from assms(2) have "Trytes command \<noteq> []"
    by auto
  with ServeHTTP_stops_early [OF assms(1) stop, of w] show ?thesis
    by simp
qed

theorem undecodable_transaction_rejected_at_sample:
  "intercepted sampleEnv (post bodyBadTx) (cmd 14 [''AA'', ''ZZ''])
   \<and> AsTransactionObject sampleEnv ''ZZ'' = None
   \<and> powCalls (snd (ServeHTTP sampleEnv limits0 (post bodyBadTx) world0)) = powCalls world0
   \<and> fst (ServeHTTP sampleEnv limits0 (post bodyBadTx) world0)
       = Return StatusBadRequest (Some ErrBuildingTx)"
  using undecodable_transaction_rejected [OF sample_intercepted(4), of limits0 world0]
    sample_intercepted(4)
  by (simp add: limits0_def overBundleLimit_def mwmOutOfRange_def)

text \<open>The sample with the difficulty 15 and the one transaction \<open>ZZ\<close> gets the error of the
  difficulty, not \<open>ErrBuildingTx\<close>.\<close>

theorem undecodable_transaction_difficulty_error:
  "intercepted sampleEnv (post bodyBadTxBadMWM) (cmd 15 [''ZZ''])
   \<and> AsTransactionObject sampleEnv ''ZZ'' = None
   \<and> fst (ServeHTTP sampleEnv limits0 (post bodyBadTxBadMWM) world0)
       = Return StatusBadRequest (Some (ErrInvalidMWM 14))
   \<and> ErrInvalidMWM 14 \<noteq> ErrBuildingTx"
  using sample_intercepted(3)
  by (simp add: ServeHTTP_intercepted [OF sample_intercepted(3)] limits0_def mwmOutOfRange_def)

subsection \<open>A proof of work that fails\<close>

text \<open>
  Claim C8: when the handler of an intercepted request calls the proof-of-work primitive
  and the primitive fails, the request fails with status 400 and the error
  \<open>ErrExecutingProofOfWork\<close>, and the mutex that was taken is released: it is not held
  in the final world, whose trace ends with the unlock.
\<close>

theorem proof_of_work_failure:
  assumes "intercepted env r command"
    and "powCalls (snd (ServeHTTP env lim r w)) = powCalls w @ [EvDoPoW trunk branch txs mwm]"
    and "DoPoW env trunk branch txs mwm = None"
  shows "fst (ServeHTTP env lim r w) = Return StatusBadRequest (Some ErrExecutingProofOfWork)
       \<and> \<not> held (snd (ServeHTTP env lim r w))
       \<and> (\<exists>evs. trace (snd (ServeHTTP env lim r w)) = trace w @ [EvLock] @ evs @ [EvUnlock])"
proof -
  from ServeHTTP_powCalls [OF assms(1), of lim w] assms(2)
  have reach: "reachesCompute env lim command"
    and call: "powCall command = EvDoPoW trunk branch txs mwm"
    by (simp_all split: if_splits)
  from call assms(3)
  have fails: "DoPoW env (TrunkTxHash command) (BranchTxHash command) (Trytes command)
      (word_of_int (MWM command)) = None"
    by (simp add: powCall_def)
  from ServeHTTP_reaches_compute [OF assms(1) reach, of w] obtain st w2 where
    "ServeHTTP env lim r w =
       (fst (compute env command (clock w + word_of_nat (lockWait env))
               (length (Trytes command)) st w2),
        Unlock (snd (compute env command (clock w + word_of_nat (lockWait env))
               (length (Trytes command)) st w2)))"
    and "index (transactions st) 0 \<noteq> None"
    by blast
  with fails have "fst (ServeHTTP env lim r w)
      = Return StatusBadRequest (Some ErrExecutingProofOfWork)"
    by (simp add: compute_result)
  moreover from reach have "\<not> mwmOutOfRange lim command"
    by (simp add: reachesCompute_def)
  note ServeHTTP_locked_section [OF assms(1) this, of w]
  ultimately show ?thesis by blast
qed

lemma intercepted_Unmarshal:
  "Unmarshal env' = Unmarshal env \<Longrightarrow> intercepted env' r command = intercepted env r command"
  by (simp add: intercepted_def split: option.splits)

lemma sample_reaches:
  assumes "AsTransactionObject env = AsTransactionObject sampleEnv"
  shows "reachesCompute env limits0 (cmd 14 [''AA''])"
  using assms
  by (simp add: reachesCompute_def mwmOutOfRange_def overBundleLimit_def limits0_def)

lemma failingEnv_simps [simp]:
  "Unmarshal failingEnv = Unmarshal sampleEnv"
  "AsTransactionObject failingEnv = AsTransactionObject sampleEnv"
  "DoPoW failingEnv trunk branch txs mwm = None"
  by (simp_all add: failingEnv_def)

lemma waitingEnv_simps [simp]:
  "Unmarshal (waitingEnv a b) = Unmarshal sampleEnv"
  "AsTransactionObject (waitingEnv a b) = AsTransactionObject sampleEnv"
  "DoPoW (waitingEnv a b) trunk branch txs mwm = Some txs"
  "Marshal (waitingEnv a b) res = Some ''{}''"
  "\<not> writeFails (waitingEnv a b)"
  "lockWait (waitingEnv a b) = a" "decodeTime (waitingEnv a b) = 0"
  "powTime (waitingEnv a b) = b" "logTime (waitingEnv a b) = 0"
  by (simp_all add: waitingEnv_def sampleEnv_def)

lemma sample_intercepted_good:
  "intercepted failingEnv (post bodyGood) (cmd 14 [''AA''])"
  "intercepted (waitingEnv a b) (post bodyGood) (cmd 14 [''AA''])"
  using sample_intercepted(5) intercepted_Unmarshal [of failingEnv sampleEnv]
    intercepted_Unmarshal [of "waitingEnv a b" sampleEnv]
  by simp_all

theorem proof_of_work_failure_at_sample:
  "intercepted failingEnv (post bodyGood) (cmd 14 [''AA''])
   \<and> powCalls (snd (ServeHTTP failingEnv limits0 (post bodyGood) world0))
       = powCalls world0 @ [EvDoPoW ''T'' ''B'' [''AA''] 14]
   \<and> DoPoW failingEnv ''T'' ''B'' [''AA''] 14 = None
   \<and> fst (ServeHTTP failingEnv limits0 (post bodyGood) world0)
       = Return StatusBadRequest (Some ErrExecutingProofOfWork)
   \<and> \<not> held (snd (ServeHTTP failingEnv limits0 (post bodyGood) world0))"
proof -
  note i = sample_intercepted_good(1)
  have calls: "powCalls (snd (ServeHTTP failingEnv limits0 (post bodyGood) world0))
      = powCalls world0 @ [EvDoPoW ''T'' ''B'' [''AA''] 14]"
    using ServeHTTP_powCalls [OF i, of limits0 world0] sample_reaches [of failingEnv]
    by (simp add: powCall_def)
  have fails: "DoPoW failingEnv ''T'' ''B'' [''AA''] 14 = None"
    by simp
  from proof_of_work_failure [OF i calls fails] i calls fails show ?thesis
    by blast
qed

subsection \<open>The bundle hash of the first transaction\<close>

text \<open>
  Claim C9: the handler never panics, so each of its indexed accesses, the read of
  \<open>transactions[0]\<close> at line 195 among them, is in bounds. The reason is the one the claim
  gives: the loop is entered with a batch that is not empty, and when it is done the
  slice has the length of the batch and holds at every index the decoded transaction of
  that index, so index 0 holds the first decoded transaction.
\<close>

theorem bundle_read_in_bounds:
  "fst (ServeHTTP env lim r w) \<noteq> Panic
   \<and> (txs \<noteq> [] \<and> decodeLoop env txs (length txs) (loopInit (length txs)) w1 = (Done, st, w2)
      \<longrightarrow> length (transactions st) = length txs
        \<and> (\<forall>i<length txs. AsTransactionObject env (txs ! i) = Some (transactions st ! i))
        \<and> index (transactions st) 0 = AsTransactionObject env (txs ! 0))"
proof -
  have "length (transactions st) = length txs
        \<and> (\<forall>i<length txs. AsTransactionObject env (txs ! i) = Some (transactions st ! i))
        \<and> index (transactions st) 0 = AsTransactionObject env (txs ! 0)"
    if ne: "txs \<noteq> []"
      and loop: "decodeLoop env txs (length txs) (loopInit (length txs)) w1 = (Done, st, w2)"
  proof -
    from decodeLoop_in_range [OF loop] have len: "length (transactions st) = length txs"
      by simp
    from decodeLoop_filled [OF loop]
    have filled: "\<forall>i<length txs. AsTransactionObject env (txs ! i) = Some (transactions st ! i)"
      by simp
    from ne filled have "AsTransactionObject env (txs ! 0) = Some (transactions st ! 0)"
      by simp
    with ne len have "index (transactions st) 0 = AsTransactionObject env (txs ! 0)"
      by (simp add: index_def)
    with len filled show ?thesis by blast
  qed
  with ServeHTTP_never_panics [of env lim r w] show ?thesis
    by blast
qed

theorem bundle_read_in_bounds_at_sample:
  "fst (ServeHTTP sampleEnv limits0 (post bodyGood) world0) \<noteq> Panic
   \<and> decodeLoop sampleEnv [''AA''] (length [''AA'']) (loopInit (length [''AA''])) world0
       = (Done, \<lparr>isValueBundle = False, inputValue = 0, transactions = [sampleTx]\<rparr>, world0)
   \<and> index [sampleTx] 0 = AsTransactionObject sampleEnv ''AA''"
proof -
  have loop: "decodeLoop sampleEnv [''AA''] (length [''AA'']) (loopInit (length [''AA''])) world0
       = (Done, \<lparr>isValueBundle = False, inputValue = 0, transactions = [sampleTx]\<rparr>, world0)"
    by (simp add: loopInit_def index_def tallyValue_def sampleTx_def sampleEnv_def)
  from bundle_read_in_bounds [of sampleEnv limits0 "post bodyGood" world0 "[''AA'']" world0
      "\<lparr>isValueBundle = False, inputValue = 0, transactions = [sampleTx]\<rparr>" world0] loop
  show ?thesis
    by simp
qed

subsection \<open>The duration in the response\<close>

text \<open>What a successful request does: it reached the proof of work, the primitive gave a
  batch, and the response that was encoded carries that batch and a duration.\<close>

lemma ServeHTTP_success:
  assumes "intercepted env r command"
    and "fst (ServeHTTP env lim r w) = Return StatusOK None"
  shows "\<exists>powed.
           DoPoW env (TrunkTxHash command) (BranchTxHash command) (Trytes command)
             (word_of_int (MWM command)) = Some powed
           \<and> marshalCalls (snd (ServeHTTP env lim r w)) =
               marshalCalls w @
                 [EvMarshal \<lparr>ResTrytes = powed,
                    Duration = quo64 (word_of_nat (decodeTime env) + word_of_nat (powTime env)
                                       + word_of_nat (logTime env)) 1000000\<rparr>]"
    and "clock (snd (ServeHTTP env lim r w)) =
           clock w + word_of_nat (lockWait env) + word_of_nat (decodeTime env)
             + word_of_nat (powTime env) + word_of_nat (logTime env)"
proof -
  have reach: "reachesCompute env lim command"
  proof (rule ccontr)
    assume "\<not> reachesCompute env lim command"
    from ServeHTTP_stops_early(2) [OF assms(1) this, of w] assms(2) show False
      by (simp add: StatusOK_def StatusBadRequest_def split: if_splits)
  qed
  from ServeHTTP_reaches_compute [OF assms(1) reach, of w] obtain st w2 where
    run: "ServeHTTP env lim r w =
       (fst (compute env command (clock w + word_of_nat (lockWait env))
               (length (Trytes command)) st w2),
        Unlock (snd (compute env command (clock w + word_of_nat (lockWait env))
               (length (Trytes command)) st w2)))"
    and clk: "clock w2 = clock w + word_of_nat (lockWait env) + word_of_nat (decodeTime env)"
    and mar: "marshalCalls w2 = marshalCalls w"
    and idx: "index (transactions st) 0 \<noteq> None"
    by blast
  let ?c = "compute env command (clock w + word_of_nat (lockWait env))
               (length (Trytes command)) st w2"
  from run assms(2) have ok: "fst ?c = Return StatusOK None"
    by simp
  with compute_result [OF idx, of env command "clock w + word_of_nat (lockWait env)"
      "length (Trytes command)" w2]
  obtain powed where powed:
    "DoPoW env (TrunkTxHash command) (BranchTxHash command) (Trytes command)
       (word_of_int (MWM command)) = Some powed"
    by (auto simp: StatusOK_def StatusBadRequest_def split: option.splits)
  from compute_marshalCalls [OF idx powed, of "clock w + word_of_nat (lockWait env)"
      "length (Trytes command)" w2] run mar clk
  have "marshalCalls (snd (ServeHTTP env lim r w)) =
               marshalCalls w @
                 [EvMarshal \<lparr>ResTrytes = powed,
                    Duration = quo64 (word_of_nat (decodeTime env) + word_of_nat (powTime env)
                                       + word_of_nat (logTime env)) 1000000\<rparr>]"
    by (simp add: add.assoc)
  with powed show "\<exists>powed.
           DoPoW env (TrunkTxHash command) (BranchTxHash command) (Trytes command)
             (word_of_int (MWM command)) = Some powed
           \<and> marshalCalls (snd (ServeHTTP env lim r w)) =
               marshalCalls w @
                 [EvMarshal \<lparr>ResTrytes = powed,
                    Duration = quo64 (word_of_nat (decodeTime env) + word_of_nat (powTime env)
                                       + word_of_nat (logTime env)) 1000000\<rparr>]"
    by blast
  from compute_clock [OF ok] run clk
  show "clock (snd (ServeHTTP env lim r w)) =
           clock w + word_of_nat (lockWait env) + word_of_nat (decodeTime env)
             + word_of_nat (powTime env) + word_of_nat (logTime env)"
    by simp
qed

text \<open>
  Claim C3, as amended: in the response of a successful intercepted request the duration
  is the whole number of milliseconds (nanoseconds divided by 1000000, truncated) between
  the clock reading \<open>start\<close> of line 171 and the reading of line 210. \<open>start\<close> is read
  after \<open>mu.Lock\<close> has returned, so the duration covers the decoding, the proof of work
  and the logging, and not the time spent waiting for the mutex, although that time has
  passed on the clock when the handler returns.
\<close>

theorem duration_measured_after_lock:
  assumes "intercepted env r command"
    and "fst (ServeHTTP env lim r w) = Return StatusOK None"
  shows "(\<exists>powed.
           DoPoW env (TrunkTxHash command) (BranchTxHash command) (Trytes command)
             (word_of_int (MWM command)) = Some powed
           \<and> marshalCalls (snd (ServeHTTP env lim r w)) =
               marshalCalls w @
                 [EvMarshal \<lparr>ResTrytes = powed,
                    Duration = quo64 (word_of_nat (decodeTime env) + word_of_nat (powTime env)
                                       + word_of_nat (logTime env)) 1000000\<rparr>])
       \<and> clock (snd (ServeHTTP env lim r w)) =
           clock w + word_of_nat (lockWait env) + word_of_nat (decodeTime env)
             + word_of_nat (powTime env) + word_of_nat (logTime env)"
  using ServeHTTP_success [OF assms] by blast

lemma sample_success:
  "fst (ServeHTTP (waitingEnv a b) limits0 (post bodyGood) world0) = Return StatusOK None"
proof -
  have reach: "reachesCompute (waitingEnv a b) limits0 (cmd 14 [''AA''])"
    by (rule sample_reaches) simp
  from ServeHTTP_reaches_compute [OF sample_intercepted_good(2) reach, of world0]
  obtain st w2 where
    "ServeHTTP (waitingEnv a b) limits0 (post bodyGood) world0 =
       (fst (compute (waitingEnv a b) (cmd 14 [''AA''])
               (clock world0 + word_of_nat (lockWait (waitingEnv a b)))
               (length (Trytes (cmd 14 [''AA'']))) st w2),
        Unlock (snd (compute (waitingEnv a b) (cmd 14 [''AA''])
               (clock world0 + word_of_nat (lockWait (waitingEnv a b)))
               (length (Trytes (cmd 14 [''AA'']))) st w2)))"
    and "index (transactions st) 0 \<noteq> None"
    by blast
  then show ?thesis
    by (simp add: compute_result)
qed

theorem duration_measured_after_lock_at_sample:
  "intercepted (waitingEnv 5000000000 3000000000) (post bodyGood) (cmd 14 [''AA''])
   \<and> fst (ServeHTTP (waitingEnv 5000000000 3000000000) limits0 (post bodyGood) world0)
       = Return StatusOK None
   \<and> marshalCalls (snd (ServeHTTP (waitingEnv 5000000000 3000000000) limits0
        (post bodyGood) world0))
       = [EvMarshal \<lparr>ResTrytes = [''AA''], Duration = 3000\<rparr>]
   \<and> clock (snd (ServeHTTP (waitingEnv 5000000000 3000000000) limits0
        (post bodyGood) world0))
       = 8000000000"
proof -
  note i = sample_intercepted_good(2) [of 5000000000 3000000000]
  note ok = sample_success [of 5000000000 3000000000]
  from duration_measured_after_lock [OF i ok] i ok show ?thesis
    by (simp add: world0_def marshalCalls_def quo64_def)
qed

text \<open>The sample request waits five seconds for the mutex and does everything else in no
  time: the handler returns 5000 milliseconds after it was entered, and the duration in
  the response is 0.\<close>

theorem duration_excludes_lock_wait:
  "intercepted (waitingEnv 5000000000 0) (post bodyGood) (cmd 14 [''AA''])
   \<and> fst (ServeHTTP (waitingEnv 5000000000 0) limits0 (post bodyGood) world0)
       = Return StatusOK None
   \<and> marshalCalls (snd (ServeHTTP (waitingEnv 5000000000 0) limits0 (post bodyGood) world0))
       = [EvMarshal \<lparr>ResTrytes = [''AA''], Duration = 0\<rparr>]
   \<and> quo64 (clock (snd (ServeHTTP (waitingEnv 5000000000 0) limits0 (post bodyGood) world0))
         - clock world0) 1000000 = 5000"
proof -
  note i = sample_intercepted_good(2) [of 5000000000 0]
  note ok = sample_success [of 5000000000 0]
  from ServeHTTP_success [OF i ok] i ok show ?thesis
    by (simp add: world0_def marshalCalls_def quo64_def)
qed

end
